theory Spec2Isabelle
  imports Main
begin

section \<open>Retell credential configuration (retellCredentials.ts)\<close>

text \<open>
  \<^verbatim>\<open>Partial<RetellCredentials>\<close>: each of the three fields is a string or
  \<^verbatim>\<open>undefined\<close>. JavaScript truthiness of such a value: \<^verbatim>\<open>undefined\<close> and
  the empty string are falsy, every other string is truthy.
\<close>

record RetellCredentials =
  apiKey :: "string option"
  callAgentId :: "string option"
  smsAgentId :: "string option"

fun truthy :: "string option \<Rightarrow> bool" where
  "truthy None = False"
| "truthy (Some s) = (s \<noteq> [])"

text \<open>\<^verbatim>\<open>s.startsWith(p)\<close>\<close>

fun startsWith :: "string \<Rightarrow> string \<Rightarrow> bool" where
  "startsWith s [] = True"
| "startsWith [] (p # ps) = False"
| "startsWith (c # cs) (p # ps) = (c = p \<and> startsWith cs ps)"

text \<open>
  \<^verbatim>\<open>x && x.startsWith(p)\<close> coerced to a boolean, and \<^verbatim>\<open>!x || x.startsWith(p)\<close>.
\<close>

fun presentWithPrefix :: "string option \<Rightarrow> string \<Rightarrow> bool" where
  "presentWithPrefix None p = False"
| "presentWithPrefix (Some s) p = (s \<noteq> [] \<and> startsWith s p)"

fun absentOrPrefix :: "string option \<Rightarrow> string \<Rightarrow> bool" where
  "absentOrPrefix None p = True"
| "absentOrPrefix (Some s) p = (s = [] \<or> startsWith s p)"

definition HARDCODED_RETELL_CREDENTIALS :: RetellCredentials where
  "HARDCODED_RETELL_CREDENTIALS =
     \<lparr> apiKey = Some ''key_3660938283961c067186004a50e3'',
       callAgentId = Some ''agent_ca2a01536c2e94d0ff4e50df70'',
       smsAgentId = Some '''' \<rparr>"

text \<open>
  \<^verbatim>\<open>validateCredentials\<close>: the early return for the all-empty set comes first, as in
  the source; then the three format checks.
\<close>

definition validateCredentials :: "RetellCredentials \<Rightarrow> bool" where
  "validateCredentials credentials =
     (if \<not> truthy (apiKey credentials) \<and> \<not> truthy (callAgentId credentials)
           \<and> \<not> truthy (smsAgentId credentials)
      then True
      else
        (let hasValidApiKey = presentWithPrefix (apiKey credentials) ''key_'';
             hasValidCallAgent = presentWithPrefix (callAgentId credentials) ''agent_'';
             hasValidSmsAgent = absentOrPrefix (smsAgentId credentials) ''agent_''
         in hasValidApiKey \<and> hasValidCallAgent \<and> hasValidSmsAgent))"

definition getBulletproofCredentials :: RetellCredentials where
  "getBulletproofCredentials = HARDCODED_RETELL_CREDENTIALS"

text \<open>
  The validity invariant in the words of the specification: apiKey and callAgentId are
  both present and correctly prefixed; smsAgentId may be absent (or empty), and carries
  the \<^verbatim>\<open>agent_\<close> prefix when it is present.
\<close>

definition spec_valid :: "RetellCredentials \<Rightarrow> bool" where
  "spec_valid c =
     (presentWithPrefix (apiKey c) ''key_'' \<and> presentWithPrefix (callAgentId c) ''agent_''
        \<and> absentOrPrefix (smsAgentId c) ''agent_'')"

definition allEmpty :: "RetellCredentials \<Rightarrow> bool" where
  "allEmpty c = (\<not> truthy (apiKey c) \<and> \<not> truthy (callAgentId c) \<and> \<not> truthy (smsAgentId c))"


subsection \<open>Persistence of the credentials in the browser\<close>

text \<open>
  The browser globals the module touches. Each of \<^verbatim>\<open>localStorage\<close>,
  \<^verbatim>\<open>sessionStorage\<close> and \<^verbatim>\<open>window\<close> may be undefined (\<open>None\<close>), which the
  code tests with \<^verbatim>\<open>typeof\<close>. A web storage maps keys to strings; the memory backup
  is a property of \<^verbatim>\<open>window\<close> holding an object. \<^verbatim>\<open>setItem\<close> can throw (quota,
  security): \<open>setItemThrows\<close> says for which storage it does. \<^verbatim>\<open>getItem\<close> is
  taken not to throw.
\<close>

record StoredCredentials = RetellCredentials +
  timestamp :: int
  source :: string

datatype web_storage = SessionStorage | LocalStorage

record browser =
  localStorage :: "(string \<rightharpoonup> string) option"
  sessionStorage :: "(string \<rightharpoonup> string) option"
  window :: "(string \<rightharpoonup> StoredCredentials) option"
  setItemThrows :: "web_storage \<Rightarrow> bool"

definition SESSION_BACKUP_KEY :: string where
  "SESSION_BACKUP_KEY = ''retell_credentials_backup''"

definition MEMORY_BACKUP_KEY :: string where
  "MEMORY_BACKUP_KEY = ''__retellCredentialsBackup''"

definition EMERGENCY_RECOVERY_KEY :: string where
  "EMERGENCY_RECOVERY_KEY = ''__emergencyRetellCredentials''"

text \<open>
  The object \<^verbatim>\<open>{...credentials, timestamp: Date.now(), source: 'hardcoded_persistence'}\<close>.
\<close>

definition backupOf :: "RetellCredentials \<Rightarrow> int \<Rightarrow> StoredCredentials" where
  "backupOf credentials now =
     \<lparr> apiKey = apiKey credentials, callAgentId = callAgentId credentials,
       smsAgentId = smsAgentId credentials, timestamp = now,
       source = ''hardcoded_persistence'' \<rparr>"

text \<open>
  The logout guard: \<^verbatim>\<open>localStorage\<close> is defined and its item \<^verbatim>\<open>justLoggedOut\<close>
  is the string \<^verbatim>\<open>'true'\<close>.
\<close>

definition justLoggedOut :: "browser \<Rightarrow> bool" where
  "justLoggedOut b =
     (case localStorage b of
        None \<Rightarrow> False
      | Some ls \<Rightarrow> ls ''justLoggedOut'' = Some ''true'')"

text \<open>
  \<^verbatim>\<open>storeCredentialsEverywhere\<close>. \<open>JSON_stringify\<close> is the runtime's serialiser and
  \<open>t1\<close>, \<open>t2\<close>, \<open>t3\<close> are the three readings of \<^verbatim>\<open>Date.now()\<close>. The whole body
  stands in one \<^verbatim>\<open>try\<close>: a \<^verbatim>\<open>setItem\<close> that throws ends the function with the
  writes made so far; the function returns nothing, so the result is the browser state.
\<close>

definition storeCredentialsEverywhere ::
  "(StoredCredentials \<Rightarrow> string) \<Rightarrow> int \<Rightarrow> int \<Rightarrow> int \<Rightarrow> RetellCredentials \<Rightarrow> browser \<Rightarrow> browser"
where
  "storeCredentialsEverywhere JSON_stringify t1 t2 t3 credentials b =
     (if justLoggedOut b then b
      else
        (case
           (case sessionStorage b of
              None \<Rightarrow> Some b
            | Some ss \<Rightarrow>
                if setItemThrows b SessionStorage then None
                else Some (b\<lparr> sessionStorage :=
                  Some (ss(SESSION_BACKUP_KEY \<mapsto> JSON_stringify (backupOf credentials t1))) \<rparr>))
         of
           None \<Rightarrow> b
         | Some b1 \<Rightarrow>
             (let b2 =
                (case window b1 of
                   None \<Rightarrow> b1
                 | Some w \<Rightarrow>
                     b1\<lparr> window := Some (w(MEMORY_BACKUP_KEY \<mapsto> backupOf credentials t2)) \<rparr>)
              in
                (case localStorage b2 of
                   None \<Rightarrow> b2
                 | Some ls \<Rightarrow>
                     if setItemThrows b2 LocalStorage then b2
                     else b2\<lparr> localStorage :=
                       Some (ls(EMERGENCY_RECOVERY_KEY \<mapsto> JSON_stringify (backupOf credentials t3))) \<rparr>))))"

text \<open>\<^verbatim>\<open>initializeCredentialPersistence\<close>: the same guard, then the hardcoded set is stored.\<close>

definition initializeCredentialPersistence ::
  "(StoredCredentials \<Rightarrow> string) \<Rightarrow> int \<Rightarrow> int \<Rightarrow> int \<Rightarrow> browser \<Rightarrow> browser"
where
  "initializeCredentialPersistence JSON_stringify t1 t2 t3 b =
     (if justLoggedOut b then b
      else storeCredentialsEverywhere JSON_stringify t1 t2 t3 getBulletproofCredentials b)"

section \<open>The global service initializer (globalServiceInitializer.ts)\<close>

text \<open>
  The two static fields of the class, and the promises that \<^verbatim>\<open>performInitialization\<close>
  has created: promise \<open>p\<close> is entry \<open>p\<close> of \<open>promises\<close>, and every call of
  \<^verbatim>\<open>performInitialization\<close> creates exactly one, so their number is the number of runs
  of the initialization body. JavaScript runs each synchronous stretch of code without
  interruption; calls interleave only at an \<^verbatim>\<open>await\<close>. An execution is therefore a
  sequence of events: a call of \<^verbatim>\<open>initialize\<close>, a call of \<^verbatim>\<open>forceReinitialize\<close>,
  and the end of a running body, which either reaches \<^verbatim>\<open>this.initialized = true\<close> and
  fulfils its promise or throws and rejects it. A call of \<^verbatim>\<open>initialize\<close> returns
  nothing (\<open>ReturnsVoid\<close>) or the stored promise; the promise an \<^verbatim>\<open>async\<close> function
  hands out settles as the one it returns, and the model identifies the two. The services
  that the body calls are taken not to call back into the class.
\<close>

datatype promise_state = Pending | Fulfilled | Rejected

record GlobalServiceInitializer =
  initialized :: bool
  initPromise :: "nat option"
  promises :: "promise_state list"

datatype init_return = ReturnsVoid | ReturnsPromise nat

text \<open>The class as loaded: \<^verbatim>\<open>initialized = false\<close>, \<^verbatim>\<open>initPromise = null\<close>.\<close>

definition gsi_initial :: GlobalServiceInitializer where
  "gsi_initial = \<lparr> initialized = False, initPromise = None, promises = [] \<rparr>"

text \<open>The number of times the body of \<^verbatim>\<open>performInitialization\<close> has been started.\<close>

definition bodyRuns :: "GlobalServiceInitializer \<Rightarrow> nat" where
  "bodyRuns s = length (promises s)"

text \<open>
  The call of \<^verbatim>\<open>performInitialization\<close>: it creates a promise and runs the body up
  to its first \<^verbatim>\<open>await\<close>, which writes no field of the class.
\<close>

definition performInitialization :: "GlobalServiceInitializer \<Rightarrow> nat \<times> GlobalServiceInitializer" where
  "performInitialization s = (length (promises s), s\<lparr> promises := promises s @ [Pending] \<rparr>)"

text \<open>\<^verbatim>\<open>initialize\<close>: the two guards in the order of the source, then the assignment.\<close>

definition initialize :: "GlobalServiceInitializer \<Rightarrow> init_return \<times> GlobalServiceInitializer" where
  "initialize s =
     (if initialized s then (ReturnsVoid, s)
      else case initPromise s of
        Some p \<Rightarrow> (ReturnsPromise p, s)
      | None \<Rightarrow>
          (case performInitialization s of
             (p, s') \<Rightarrow> (ReturnsPromise p, s'\<lparr> initPromise := Some p \<rparr>)))"

text \<open>
  The end of the body of promise \<open>p\<close>. On the normal path the last statement sets
  \<^verbatim>\<open>this.initialized = true\<close> and the promise is fulfilled; on an exception the
  \<^verbatim>\<open>catch\<close> logs and rethrows, so the promise is rejected and no field is written.
  Only a pending promise has a running body.
\<close>

definition body_succeeds :: "nat \<Rightarrow> GlobalServiceInitializer \<Rightarrow> GlobalServiceInitializer" where
  "body_succeeds p s =
     (if p < length (promises s) \<and> promises s ! p = Pending
      then s\<lparr> initialized := True, promises := (promises s)[p := Fulfilled] \<rparr>
      else s)"

definition body_fails :: "nat \<Rightarrow> GlobalServiceInitializer \<Rightarrow> GlobalServiceInitializer" where
  "body_fails p s =
     (if p < length (promises s) \<and> promises s ! p = Pending
      then s\<lparr> promises := (promises s)[p := Rejected] \<rparr>
      else s)"

text \<open>\<^verbatim>\<open>forceReinitialize\<close>: both fields are reset, then \<^verbatim>\<open>initialize\<close> runs.\<close>

definition forceReinitialize :: "GlobalServiceInitializer \<Rightarrow> init_return \<times> GlobalServiceInitializer" where
  "forceReinitialize s = initialize (s\<lparr> initialized := False, initPromise := None \<rparr>)"

text \<open>Executions: the events above, applied from left to right.\<close>

datatype event = CallInitialize | CallForceReinitialize | BodySucceeds nat | BodyFails nat

fun step :: "event \<Rightarrow> GlobalServiceInitializer \<Rightarrow> GlobalServiceInitializer" where
  "step CallInitialize s = snd (initialize s)"
| "step CallForceReinitialize s = snd (forceReinitialize s)"
| "step (BodySucceeds p) s = body_succeeds p s"
| "step (BodyFails p) s = body_fails p s"

fun run :: "event list \<Rightarrow> GlobalServiceInitializer \<Rightarrow> GlobalServiceInitializer" where
  "run [] s = s"
| "run (e # es) s = run es (step e s)"


text \<open>The states in which at most one body has run, and the stored promise is its promise.\<close>

definition single_flight :: "GlobalServiceInitializer \<Rightarrow> bool" where
  "single_flight s =
     (if promises s = [] then initPromise s = None \<and> \<not> initialized s
      else length (promises s) = 1 \<and> initPromise s = Some 0)"



section \<open>Tenant configuration and the cloud profile table (apiKeyFallbackService.ts)\<close>

text \<open>\<^verbatim>\<open>TENANT_CONFIG.CURRENT_TENANT\<close> and \<^verbatim>\<open>getCurrentTenantId()\<close> (tenantConfig.ts).\<close>

definition CURRENT_TENANT :: string where
  "CURRENT_TENANT = ''artlee''"

definition getCurrentTenantId :: string where
  "getCurrentTenantId = CURRENT_TENANT"

text \<open>
  The agent configuration stored in \<^verbatim>\<open>encrypted_agent_config\<close>, and the
  \<^verbatim>\<open>ApiKeys\<close> object of the service: every field is optional (\<^verbatim>\<open>undefined\<close> and
  \<^verbatim>\<open>null\<close> are both \<open>None\<close>).
\<close>

record AgentConfig =
  call_agent_id :: "string option"
  sms_agent_id :: "string option"

record ApiKeys = AgentConfig +
  retell_api_key :: "string option"

text \<open>
  A row of the table \<^verbatim>\<open>user_profiles\<close>, with the columns the service uses. The
  table has the unique constraint \<^verbatim>\<open>user_profiles_user_id_key\<close> on \<^verbatim>\<open>user_id\<close>.
  \<open>tenant_id = None\<close> is a row whose tenant column was never written.
\<close>

record user_profile =
  user_id :: string
  tenant_id :: "string option"
  encrypted_retell_api_key :: "string option"
  encrypted_agent_config :: "AgentConfig option"
  updated_at :: string

text \<open>
  The object that \<^verbatim>\<open>storeInUserProfiles\<close> passes to \<^verbatim>\<open>upsert\<close>: it has the four
  columns below and no \<^verbatim>\<open>tenant_id\<close>.
\<close>

record user_profile_values =
  v_user_id :: string
  v_encrypted_retell_api_key :: "string option"
  v_encrypted_agent_config :: AgentConfig
  v_updated_at :: string

text \<open>
  The second argument of \<^verbatim>\<open>upsert\<close>: absent in the code marked as current, and
  \<^verbatim>\<open>{ onConflict: 'user_id' }\<close> in the code marked as fixed.
\<close>

datatype upsert_options = NoOptions | OnConflictUserId

definition unique_violation :: string where
  "unique_violation =
     ''duplicate key value violates unique constraint user_profiles_user_id_key''"

text \<open>
  The database's part. An inserted row takes the columns of the object; its tenant column
  is the column default of the table, a parameter here. An update on conflict overwrites
  the columns of the object in the row with that \<^verbatim>\<open>user_id\<close> and leaves its tenant
  column as it is. Without a conflict target on \<^verbatim>\<open>user_id\<close> the statement is an
  insert, which the unique constraint refuses (HTTP 409) when the user has a row already.
\<close>

definition insert_row :: "string option \<Rightarrow> user_profile_values \<Rightarrow> user_profile" where
  "insert_row tenant_default v =
     \<lparr> user_id = v_user_id v, tenant_id = tenant_default,
       encrypted_retell_api_key = v_encrypted_retell_api_key v,
       encrypted_agent_config = Some (v_encrypted_agent_config v),
       updated_at = v_updated_at v \<rparr>"

definition update_row :: "user_profile_values \<Rightarrow> user_profile \<Rightarrow> user_profile" where
  "update_row v r =
     (if user_id r = v_user_id v
      then r\<lparr> encrypted_retell_api_key := v_encrypted_retell_api_key v,
              encrypted_agent_config := Some (v_encrypted_agent_config v),
              updated_at := v_updated_at v \<rparr>
      else r)"

definition upsert ::
  "string option \<Rightarrow> upsert_options \<Rightarrow> user_profile_values \<Rightarrow> user_profile list
     \<Rightarrow> string + user_profile list"
where
  "upsert tenant_default options v table =
     (if v_user_id v \<in> set (map user_id table)
      then (case options of
              OnConflictUserId \<Rightarrow> Inr (map (update_row v) table)
            | NoOptions \<Rightarrow> Inl unique_violation)
      else Inr (table @ [insert_row tenant_default v]))"

text \<open>
  The \<^verbatim>\<open>upsert\<close> call of \<^verbatim>\<open>storeInUserProfiles\<close>: the result is the error
  (\<open>Inl\<close>) or the table after the write. The tenant of the caller is no argument: the
  call does not consult \<^verbatim>\<open>getCurrentTenantId()\<close>.
\<close>

definition storeInUserProfiles_upsert ::
  "upsert_options \<Rightarrow> string option \<Rightarrow> string \<Rightarrow> string option \<Rightarrow> AgentConfig \<Rightarrow> string
     \<Rightarrow> user_profile list \<Rightarrow> string + user_profile list"
where
  "storeInUserProfiles_upsert options tenant_default userId encrypted_key agentConfig now table =
     upsert tenant_default options
       \<lparr> v_user_id = userId, v_encrypted_retell_api_key = encrypted_key,
         v_encrypted_agent_config = agentConfig, v_updated_at = now \<rparr> table"

text \<open>The call as the analysis marks it current (no options) and as it marks it fixed.\<close>

definition storeInUserProfiles_current ::
  "string option \<Rightarrow> string \<Rightarrow> string option \<Rightarrow> AgentConfig \<Rightarrow> string
     \<Rightarrow> user_profile list \<Rightarrow> string + user_profile list"
where
  "storeInUserProfiles_current = storeInUserProfiles_upsert NoOptions"

definition storeInUserProfiles_fixed ::
  "string option \<Rightarrow> string \<Rightarrow> string option \<Rightarrow> AgentConfig \<Rightarrow> string
     \<Rightarrow> user_profile list \<Rightarrow> string + user_profile list"
where
  "storeInUserProfiles_fixed = storeInUserProfiles_upsert OnConflictUserId"

text \<open>
  \<^verbatim>\<open>{ data, error }\<close> of a query, and
  \<^verbatim>\<open>.eq('user_id', userId).eq('tenant_id', tenantId).single()\<close>: exactly one
  matching row is the data, anything else is an error.
\<close>

record supabase_response =
  response_data :: "user_profile option"
  response_error :: "string option"

definition select_single :: "user_profile list \<Rightarrow> string \<Rightarrow> string \<Rightarrow> supabase_response" where
  "select_single table userId tenantId =
     (case filter (\<lambda>r. user_id r = userId \<and> tenant_id r = Some tenantId) table of
        [r] \<Rightarrow> \<lparr> response_data = Some r, response_error = None \<rparr>
      | _ \<Rightarrow> \<lparr> response_data = None,
               response_error = Some ''JSON object requested, multiple (or no) rows returned'' \<rparr>)"

text \<open>The query of \<^verbatim>\<open>retrieveFromUserProfiles\<close>, with the tenant filter it applies.\<close>

definition retrieveFromUserProfiles_query :: "user_profile list \<Rightarrow> string \<Rightarrow> supabase_response" where
  "retrieveFromUserProfiles_query table userId = select_single table userId getCurrentTenantId"

subsection \<open>Retrieval from the profile table\<close>

datatype status = success | error

record RetrieveResult =
  status :: status
  data :: "ApiKeys option"
  error_message :: "string option"

definition emptyApiKeys :: ApiKeys where
  "emptyApiKeys = \<lparr> call_agent_id = None, sms_agent_id = None, retell_api_key = None \<rparr>"

definition emptyAgentConfig :: AgentConfig where
  "emptyAgentConfig = \<lparr> call_agent_id = None, sms_agent_id = None \<rparr>"

text \<open>\<^verbatim>\<open>if (v) target = v\<close>: the new value of \<open>target\<close>, whose old value is \<open>old\<close>.\<close>

definition setIfTruthy :: "string option \<Rightarrow> string option \<Rightarrow> string option" where
  "setIfTruthy v old = (if truthy v then v else old)"

text \<open>
  The first statements of the \<^verbatim>\<open>try\<close> block, the same in every text of the function:
  \<^verbatim>\<open>apiKeys = {}\<close>, and the key is decrypted when
  \<^verbatim>\<open>data?.encrypted_retell_api_key\<close> is truthy. \<open>decryptString\<close> is the encryption
  service, which can throw (\<open>Inl\<close>).
\<close>

definition decryptedApiKeys ::
  "(string \<Rightarrow> string + string) \<Rightarrow> supabase_response \<Rightarrow> string + ApiKeys"
where
  "decryptedApiKeys decryptString response =
     (case response_data response of
        None \<Rightarrow> Inr emptyApiKeys
      | Some row \<Rightarrow>
          (case encrypted_retell_api_key row of
             None \<Rightarrow> Inr emptyApiKeys
           | Some enc \<Rightarrow>
               if enc = [] then Inr emptyApiKeys
               else (case decryptString enc of
                       Inl e \<Rightarrow> Inl e
                     | Inr k \<Rightarrow> Inr (emptyApiKeys\<lparr> retell_api_key := Some k \<rparr>))))"

text \<open>The message of the TypeError that reading a field of \<^verbatim>\<open>null\<close> throws.\<close>

definition null_data_message :: string where
  "null_data_message = ''Cannot read properties of null (reading encrypted_agent_config)''"

text \<open>
  \<^verbatim>\<open>agentConfig = data.encrypted_agent_config || {}\<close>, and the two assignments
  \<^verbatim>\<open>if (agentConfig.call_agent_id) apiKeys.call_agent_id = agentConfig.call_agent_id\<close>
  (and the same for the SMS agent).
\<close>

definition agentConfigOf :: "user_profile \<Rightarrow> AgentConfig" where
  "agentConfigOf row =
     (case encrypted_agent_config row of None \<Rightarrow> emptyAgentConfig | Some c \<Rightarrow> c)"

definition withAgentIds :: "ApiKeys \<Rightarrow> AgentConfig \<Rightarrow> ApiKeys" where
  "withAgentIds apiKeys agentConfig =
     apiKeys\<lparr> call_agent_id := setIfTruthy (call_agent_id agentConfig) (call_agent_id apiKeys),
              sms_agent_id := setIfTruthy (sms_agent_id agentConfig) (sms_agent_id apiKeys) \<rparr>"

text \<open>
  \<^verbatim>\<open>retrieveFromUserProfiles\<close> as it runs. The analysis under the sources gives its
  query, says that it returns the key with the agent configuration of the row, empty as it
  may be, and that the local storage is never reached; the text of the function is the
  one printed with the proposed change, without the block marked as to be added: the
  agent identifiers are taken from the row, and the \<^verbatim>\<open>catch\<close> block returns the error.
  \<open>response\<close> is what the query returned. Every \<^verbatim>\<open>throw\<close> inside the \<^verbatim>\<open>try\<close> goes
  to the \<^verbatim>\<open>catch\<close> block: the query error, a failed decryption, and the read of a field
  of \<^verbatim>\<open>data\<close> when it is \<^verbatim>\<open>null\<close>. The local storage is no argument: the function
  does not read it.
\<close>

definition retrieveFromUserProfiles ::
  "(string \<Rightarrow> string + string) \<Rightarrow> supabase_response \<Rightarrow> RetrieveResult"
where
  "retrieveFromUserProfiles decryptString response =
     (case response_error response of
        Some e \<Rightarrow> \<lparr> status = error, data = None, error_message = Some e \<rparr>
      | None \<Rightarrow>
          (case decryptedApiKeys decryptString response of
             Inl e \<Rightarrow> \<lparr> status = error, data = None, error_message = Some e \<rparr>
           | Inr apiKeys \<Rightarrow>
               (case response_data response of
                  None \<Rightarrow> \<lparr> status = error, data = None, error_message = Some null_data_message \<rparr>
                | Some row \<Rightarrow>
                    \<lparr> status = success,
                      data = Some (withAgentIds apiKeys (agentConfigOf row)),
                      error_message = None \<rparr>)))"

text \<open>
  The change that the analysis proposes and that waits for authorization. Two texts of
  it are printed: both add the local storage fallback when the row holds neither agent
  identifier; one of them also returns the local storage result from the \<^verbatim>\<open>catch\<close>
  block when that result is a success (\<open>catchFallsBack\<close>), the other keeps the
  \<^verbatim>\<open>catch\<close> block as it runs. \<open>localStorageResult\<close> is what
  \<^verbatim>\<open>retrieveFromLocalStorage(userId)\<close> returns.
\<close>

definition proposed_catch :: "bool \<Rightarrow> RetrieveResult \<Rightarrow> string \<Rightarrow> RetrieveResult" where
  "proposed_catch catchFallsBack localStorageResult message =
     (if catchFallsBack \<and> status localStorageResult = success then localStorageResult
      else \<lparr> status = error, data = None, error_message = Some message \<rparr>)"

definition retrieveFromUserProfiles_proposed ::
  "bool \<Rightarrow> (string \<Rightarrow> string + string) \<Rightarrow> RetrieveResult \<Rightarrow> supabase_response
     \<Rightarrow> RetrieveResult"
where
  "retrieveFromUserProfiles_proposed catchFallsBack decryptString localStorageResult response =
     (case response_error response of
        Some e \<Rightarrow> proposed_catch catchFallsBack localStorageResult e
      | None \<Rightarrow>
          (case decryptedApiKeys decryptString response of
             Inl e \<Rightarrow> proposed_catch catchFallsBack localStorageResult e
           | Inr apiKeys \<Rightarrow>
               (case response_data response of
                  None \<Rightarrow> proposed_catch catchFallsBack localStorageResult null_data_message
                | Some row \<Rightarrow>
                    (let agentConfig = agentConfigOf row;
                         hasCallAgent = truthy (call_agent_id agentConfig);
                         hasSmsAgent = truthy (sms_agent_id agentConfig)
                     in
                       if \<not> hasCallAgent \<and> \<not> hasSmsAgent
                       then
                         (case (status localStorageResult, data localStorageResult) of
                            (success, Some local) \<Rightarrow>
                              \<lparr> status = success,
                                data = Some (apiKeys
                                  \<lparr> call_agent_id :=
                                      setIfTruthy (call_agent_id local) (call_agent_id apiKeys),
                                    sms_agent_id :=
                                      setIfTruthy (sms_agent_id local) (sms_agent_id apiKeys) \<rparr>),
                                error_message = None \<rparr>
                          | _ \<Rightarrow> \<lparr> status = success, data = Some apiKeys, error_message = None \<rparr>)
                       else
                         \<lparr> status = success, data = Some (withAgentIds apiKeys agentConfig),
                           error_message = None \<rparr>))))"

text \<open>The agent configuration of a row holds neither agent identifier.\<close>

definition noAgentIds :: "AgentConfig option \<Rightarrow> bool" where
  "noAgentIds c =
     (case c of
        None \<Rightarrow> True
      | Some a \<Rightarrow> \<not> truthy (call_agent_id a) \<and> \<not> truthy (sms_agent_id a))"

section \<open>Test credentials in the local cache (EnhancedApiKeyManager.tsx)\<close>

text \<open>
  The settings object read from \<^verbatim>\<open>localStorage\<close> under \<^verbatim>\<open>settings_<user id>\<close>; its
  fields \<^verbatim>\<open>callAgentId\<close> and \<^verbatim>\<open>smsAgentId\<close> carry a prefix here, the names being
  taken by the credential record.
\<close>

record UserSettings =
  retellApiKey :: "string option"
  settings_callAgentId :: "string option"
  settings_smsAgentId :: "string option"

text \<open>\<^verbatim>\<open>s.includes(sub)\<close>\<close>

fun includesStr :: "string \<Rightarrow> string \<Rightarrow> bool" where
  "includesStr [] sub = (sub = [])"
| "includesStr (c # cs) sub = (startsWith (c # cs) sub \<or> includesStr cs sub)"

text \<open>\<^verbatim>\<open>v || ''\<close>; also the string of a value known to be truthy.\<close>

definition orEmpty :: "string option \<Rightarrow> string" where
  "orEmpty v = (case v of None \<Rightarrow> [] | Some s \<Rightarrow> s)"

text \<open>
  The test of \<^verbatim>\<open>loadApiKeys\<close>; it stands under the condition that the API key is
  truthy, and guards the two agent identifiers with \<^verbatim>\<open>&&\<close>.
\<close>

definition isTestCredentials :: "UserSettings \<Rightarrow> bool" where
  "isTestCredentials settings =
     (startsWith (orEmpty (retellApiKey settings)) ''test_key_''
      \<or> presentWithPrefix (settings_callAgentId settings) ''test_call_agent_''
      \<or> presentWithPrefix (settings_smsAgentId settings) ''test_sms_agent_'')"

text \<open>
  The flag \<^verbatim>\<open>shouldLoadFromSupabase\<close> of \<^verbatim>\<open>loadApiKeys\<close> after the test. The
  test stands under the condition that the cached API key is truthy and is not an
  encrypted value (\<^verbatim>\<open>cbc:\<close>). Before the test the flag is true: with no credentials
  in the local cache the function queries the cloud.
\<close>

definition shouldLoadFromSupabase :: "UserSettings \<Rightarrow> bool" where
  "shouldLoadFromSupabase settings =
     (if truthy (retellApiKey settings) \<and> \<not> includesStr (orEmpty (retellApiKey settings)) ''cbc:''
      then (if isTestCredentials settings then True else False)
      else True)"

text \<open>Where the loaded credentials come from, and the credentials.\<close>

datatype loaded =
  FromLocalStorage UserSettings
| FromSupabase ApiKeys
| FromDefault RetellCredentials

text \<open>
  Modelled from the spec: the test-data predicate of section 3 on a set that the cloud
  yields. A CredentialSet is test data if any field matches a reserved synthetic prefix
  (\<^verbatim>\<open>test_key_\<close>, \<^verbatim>\<open>test_call_agent_\<close>, \<^verbatim>\<open>test_sms_agent_\<close>).
\<close>

definition isTestData :: "ApiKeys \<Rightarrow> bool" where
  "isTestData keys =
     (presentWithPrefix (retell_api_key keys) ''test_key_''
      \<or> presentWithPrefix (call_agent_id keys) ''test_call_agent_''
      \<or> presentWithPrefix (sms_agent_id keys) ''test_sms_agent_'')"

text \<open>
  Modelled from the spec: the part of \<^verbatim>\<open>loadApiKeys\<close> after the log line
  "Loading API keys from Supabase (primary source)..." is missing from the sources. By
  section 3, test data must never be treated as authoritative; by section 4.2, step 6,
  a set that is test data is discarded and the cloud results are preferred, or the load
  falls back to the hardcoded default CredentialSet; by P3, the hardcoded default is
  returned when no real data exists anywhere. \<open>cloud\<close> is what the cloud tiers yield,
  \<open>None\<close> when they yield nothing.
\<close>

definition loadFromSupabase :: "ApiKeys option \<Rightarrow> loaded" where
  "loadFromSupabase cloud =
     (case cloud of
        Some keys \<Rightarrow>
          if isTestData keys then FromDefault HARDCODED_RETELL_CREDENTIALS
          else FromSupabase keys
      | None \<Rightarrow> FromDefault HARDCODED_RETELL_CREDENTIALS)"

text \<open>
  \<^verbatim>\<open>loadApiKeys\<close>: the cached settings are used and the function returns when the
  flag is false; otherwise the load goes on to the cloud.
\<close>

definition loadApiKeys :: "UserSettings \<Rightarrow> ApiKeys option \<Rightarrow> loaded" where
  "loadApiKeys settings cloud =
     (if \<not> shouldLoadFromSupabase settings then FromLocalStorage settings
      else loadFromSupabase cloud)"

text \<open>The API key of the loaded set.\<close>

fun loaded_apiKey :: "loaded \<Rightarrow> string option" where
  "loaded_apiKey (FromLocalStorage s) = retellApiKey s"
| "loaded_apiKey (FromSupabase k) = retell_api_key k"
| "loaded_apiKey (FromDefault c) = apiKey c"

text \<open>
  No tier holds real data: the local cache holds no API key or test credentials, and the
  cloud yields nothing or test data.
\<close>

definition noRealData :: "UserSettings \<Rightarrow> ApiKeys option \<Rightarrow> bool" where
  "noRealData settings cloud =
     ((isTestCredentials settings \<or> \<not> truthy (retellApiKey settings))
      \<and> (case cloud of None \<Rightarrow> True | Some keys \<Rightarrow> isTestData keys))"

section \<open>The save path of the reconciler\<close>

text \<open>
  Modelled from the spec: the driver of the save path (\<^verbatim>\<open>storeApiKeys\<close> of
  apiKeyFallbackService.ts) is missing from the sources, which only list the order of its
  attempts. The definitions of this section follow section 4.1 of the specification, an
  ordered algorithm that continues on failure.
\<close>

datatype tier = Memory | Session | Local | CloudPrimary | CloudSecondary

text \<open>
  Modelled from the spec: what a write carries. Step 2 and step 4 write the whole
  CredentialSet, step 3 writes the API key alone to cloud-primary and the agent
  identifiers to cloud-secondary.
\<close>

datatype write_kind = WholeSet | ApiKeyAlone | AgentIdentifiers

text \<open>
  Modelled from the spec: a write that throws. Its reason is what the per-tier outcome
  reports; \<open>agent_config_only\<close> is the class of failure of step 3, one that indicates
  that only the agent-config sub-field failed (a column that is not recognized).
\<close>

record write_failure =
  failure_reason :: string
  agent_config_only :: bool

text \<open>Modelled from the spec: a per-tier outcome is success, skipped, or failed: reason.\<close>

datatype tier_outcome = TierSuccess | TierSkipped | TierFailed string

record TenantScope =
  scope_tenantId :: string
  scope_userId :: "string option"

record ReconciliationResult =
  accepted_by :: "tier option"
  resolved :: RetellCredentials
  outcomes :: "(tier \<times> tier_outcome) list"

text \<open>Modelled from the spec: the persistent tiers, in the order of section 4.1.\<close>

definition persistent_tiers :: "tier list" where
  "persistent_tiers = [CloudPrimary, CloudSecondary, Local]"

text \<open>
  Modelled from the spec: the result of one write of a tier (\<open>Inl\<close> when it throws) as
  the outcome that is reported, as acceptance, and as the store of the tier afterwards: a
  write that throws leaves the store as it was.
\<close>

definition recorded :: "write_failure + 's \<Rightarrow> tier_outcome" where
  "recorded w = (case w of Inr s \<Rightarrow> TierSuccess | Inl f \<Rightarrow> TierFailed (failure_reason f))"

definition accepted :: "write_failure + 's \<Rightarrow> bool" where
  "accepted w = (case w of Inr s \<Rightarrow> True | Inl f \<Rightarrow> False)"

definition stored :: "write_failure + 's \<Rightarrow> 's \<Rightarrow> 's" where
  "stored w old = (case w of Inr s \<Rightarrow> s | Inl f \<Rightarrow> old)"

text \<open>
  Modelled from the spec: step 5, the best-effort copy of the resolved set into a cache
  tier; a failure changes nothing and is not reported.
\<close>

definition mirror ::
  "(tier \<Rightarrow> write_kind \<Rightarrow> TenantScope \<Rightarrow> RetellCredentials \<Rightarrow> 's \<Rightarrow> write_failure + 's)
     \<Rightarrow> TenantScope \<Rightarrow> RetellCredentials \<Rightarrow> tier \<Rightarrow> (tier \<Rightarrow> 's) \<Rightarrow> (tier \<Rightarrow> 's)"
where
  "mirror tier_write scope credentials t stores =
     stores(t := stored (tier_write t WholeSet scope credentials (stores t)) (stores t))"

text \<open>Modelled from the spec: the tier that ultimately accepted the data.\<close>

fun first_accepted :: "(tier \<times> tier_outcome) list \<Rightarrow> tier option" where
  "first_accepted [] = None"
| "first_accepted ((t, out) # os) = (if out = TierSuccess then Some t else first_accepted os)"

text \<open>
  Modelled from the spec: steps 5 and 6, after the persistent tiers: the set is mirrored
  into the memory and session tiers and the result enumerates the outcomes.
\<close>

definition finish ::
  "(tier \<Rightarrow> write_kind \<Rightarrow> TenantScope \<Rightarrow> RetellCredentials \<Rightarrow> 's \<Rightarrow> write_failure + 's)
     \<Rightarrow> TenantScope \<Rightarrow> RetellCredentials \<Rightarrow> (tier \<times> tier_outcome) list \<Rightarrow> (tier \<Rightarrow> 's)
     \<Rightarrow> ReconciliationResult \<times> (tier \<Rightarrow> 's)"
where
  "finish tier_write scope credentials os stores =
     (\<lparr> accepted_by = first_accepted os, resolved = credentials, outcomes = os \<rparr>,
      mirror tier_write scope credentials Session
        (mirror tier_write scope credentials Memory stores))"

text \<open>
  Modelled from the spec: \<^verbatim>\<open>save(tenantScope, credentials)\<close>, steps 1 to 6.
  \<^item> Step 1: the call is rejected, with no tier write, when the user id is absent or
    the logout flag is set.
  \<^item> Step 2: the whole set is written to cloud-primary; when it is accepted the other
    persistent tiers are skipped.
  \<^item> Step 3, only when step 2 failed in the class that indicates the agent-config
    sub-field: the API key alone is written to cloud-primary, then the agent identifiers
    are written to cloud-secondary. The step succeeds when both writes are accepted.
  \<^item> Step 4: when step 3 failed, the whole set is written to the local tier; the
    algorithm continuing on failure, this is also the next step when step 2 failed in
    another class.
  \<^item> Every write that throws is reported in the outcome of its tier: the outcome of
    cloud-primary is failed with the reason of step 2, followed by the reason of the
    partial write when that write threw too. Cloud-primary accepted the write when it
    accepted the whole set.
  \<^item> Steps 5 and 6 follow whatever the persistent tiers did.
  The result is a value for every input: no exception leaves the call.
\<close>

definition save ::
  "(tier \<Rightarrow> write_kind \<Rightarrow> TenantScope \<Rightarrow> RetellCredentials \<Rightarrow> 's \<Rightarrow> write_failure + 's)
     \<Rightarrow> bool \<Rightarrow> TenantScope \<Rightarrow> RetellCredentials \<Rightarrow> (tier \<Rightarrow> 's)
     \<Rightarrow> ReconciliationResult \<times> (tier \<Rightarrow> 's)"
where
  "save tier_write loggedOut scope credentials stores =
     (if scope_userId scope = None \<or> loggedOut
      then (\<lparr> accepted_by = None, resolved = credentials,
               outcomes = map (\<lambda>u. (u, TierSkipped)) persistent_tiers \<rparr>, stores)
      else
        (case tier_write CloudPrimary WholeSet scope credentials (stores CloudPrimary) of
           Inr s1 \<Rightarrow>
             finish tier_write scope credentials
               [(CloudPrimary, TierSuccess), (CloudSecondary, TierSkipped), (Local, TierSkipped)]
               (stores(CloudPrimary := s1))
         | Inl f \<Rightarrow>
             if agent_config_only f
             then
               (let partial = tier_write CloudPrimary ApiKeyAlone scope credentials
                                (stores CloudPrimary);
                    stores1 = stores(CloudPrimary := stored partial (stores CloudPrimary));
                    secondary = tier_write CloudSecondary AgentIdentifiers scope credentials
                                  (stores1 CloudSecondary);
                    stores2 = stores1(CloudSecondary := stored secondary (stores1 CloudSecondary));
                    primary_outcome =
                      TierFailed
                        (case partial of
                           Inr s2 \<Rightarrow> failure_reason f
                         | Inl p \<Rightarrow> failure_reason f @ ''; '' @ failure_reason p)
                in
                  if accepted partial \<and> accepted secondary
                  then finish tier_write scope credentials
                         [(CloudPrimary, primary_outcome), (CloudSecondary, TierSuccess),
                          (Local, TierSkipped)]
                         stores2
                  else
                    (let local = tier_write Local WholeSet scope credentials (stores2 Local)
                     in finish tier_write scope credentials
                          [(CloudPrimary, primary_outcome), (CloudSecondary, recorded secondary),
                           (Local, recorded local)]
                          (stores2(Local := stored local (stores2 Local)))))
             else
               (let local = tier_write Local WholeSet scope credentials (stores Local)
                in finish tier_write scope credentials
                     [(CloudPrimary, TierFailed (failure_reason f)),
                      (CloudSecondary, TierSkipped), (Local, recorded local)]
                     (stores(Local := stored local (stores Local))))))"

text \<open>
  Modelled from the spec: the call is successful when at least one persistent tier
  accepted the write.
\<close>

definition overall_success :: "ReconciliationResult \<Rightarrow> bool" where
  "overall_success r = (accepted_by r \<noteq> None)"



section \<open>Properties of the validity predicate\<close>

text \<open>
  C7, as stated: \<^verbatim>\<open>validateCredentials\<close> returns true exactly for the sets that are
  valid in the sense of the specification. This fails on the set with no field at all,
  which the code accepts although it is not valid.
\<close>

theorem validateCredentials_not_spec_valid_counterexample:
  "validateCredentials \<lparr> apiKey = None, callAgentId = None, smsAgentId = None \<rparr>
     \<noteq> spec_valid \<lparr> apiKey = None, callAgentId = None, smsAgentId = None \<rparr>"
  by (simp add: validateCredentials_def spec_valid_def)

text \<open>
  C7, amended: \<^verbatim>\<open>validateCredentials\<close> returns true exactly when the set is valid in
  the sense of the specification or all three fields are absent or empty.
\<close>

theorem validateCredentials_iff:
  "validateCredentials c = (allEmpty c \<or> spec_valid c)"
  by (auto simp: validateCredentials_def allEmpty_def spec_valid_def Let_def)

theorem validateCredentials_iff_witness:
  "validateCredentials HARDCODED_RETELL_CREDENTIALS
     \<and> spec_valid HARDCODED_RETELL_CREDENTIALS \<and> \<not> allEmpty HARDCODED_RETELL_CREDENTIALS
     \<and> \<not> validateCredentials \<lparr> apiKey = Some ''sk_1'', callAgentId = None, smsAgentId = None \<rparr>"
  using validateCredentials_iff [of HARDCODED_RETELL_CREDENTIALS]
    validateCredentials_iff [of "\<lparr> apiKey = Some ''sk_1'', callAgentId = None, smsAgentId = None \<rparr>"]
  by (simp add: HARDCODED_RETELL_CREDENTIALS_def allEmpty_def spec_valid_def)

text \<open>
  C9: when apiKey, callAgentId and smsAgentId are all absent or empty strings,
  \<^verbatim>\<open>validateCredentials\<close> returns true, although the set is not valid in the sense
  of the specification (no field carries its prefix).
\<close>

theorem validateCredentials_all_empty:
  assumes "\<not> truthy (apiKey c)" and "\<not> truthy (callAgentId c)" and "\<not> truthy (smsAgentId c)"
  shows "validateCredentials c \<and> \<not> presentWithPrefix (apiKey c) ''key_''
           \<and> \<not> presentWithPrefix (callAgentId c) ''agent_''"
  using assms
  by (cases "apiKey c"; cases "callAgentId c") (auto simp: validateCredentials_def)

theorem validateCredentials_all_empty_witness:
  "\<not> truthy (apiKey \<lparr> apiKey = Some '''', callAgentId = None, smsAgentId = Some '''' \<rparr>)
   \<and> \<not> truthy (callAgentId \<lparr> apiKey = Some '''', callAgentId = None, smsAgentId = Some '''' \<rparr>)
   \<and> \<not> truthy (smsAgentId \<lparr> apiKey = Some '''', callAgentId = None, smsAgentId = Some '''' \<rparr>)
   \<and> validateCredentials \<lparr> apiKey = Some '''', callAgentId = None, smsAgentId = Some '''' \<rparr>"
  using validateCredentials_all_empty
    [of "\<lparr> apiKey = Some '''', callAgentId = None, smsAgentId = Some '''' \<rparr>"]
  by simp


section \<open>Properties of the browser persistence\<close>

text \<open>
  C4: while the "user just logged out" flag is set, storing the credentials writes to no
  tier: the browser state (session storage, memory backup, local storage) after the call
  is the state before it, for \<^verbatim>\<open>storeCredentialsEverywhere\<close> and for
  \<^verbatim>\<open>initializeCredentialPersistence\<close>; neither touches a cloud tier at all.
\<close>

theorem logout_guard_no_writes:
  assumes "justLoggedOut b"
  shows "storeCredentialsEverywhere JSON_stringify t1 t2 t3 credentials b = b
    \<and> initializeCredentialPersistence JSON_stringify t1 t2 t3 b = b"
  using assms by (simp add: storeCredentialsEverywhere_def initializeCredentialPersistence_def)

theorem logout_guard_no_writes_witness:
  "justLoggedOut \<lparr> localStorage = Some [''justLoggedOut'' \<mapsto> ''true''],
       sessionStorage = Some Map.empty, window = Some Map.empty,
       setItemThrows = (\<lambda>_. False) \<rparr>
   \<and> storeCredentialsEverywhere (\<lambda>_. ''{}'') 1 2 3 HARDCODED_RETELL_CREDENTIALS
       \<lparr> localStorage = Some [''justLoggedOut'' \<mapsto> ''true''],
         sessionStorage = Some Map.empty, window = Some Map.empty,
         setItemThrows = (\<lambda>_. False) \<rparr>
     = \<lparr> localStorage = Some [''justLoggedOut'' \<mapsto> ''true''],
         sessionStorage = Some Map.empty, window = Some Map.empty,
         setItemThrows = (\<lambda>_. False) \<rparr>"
  using logout_guard_no_writes
    [of "\<lparr> localStorage = Some [''justLoggedOut'' \<mapsto> ''true''],
         sessionStorage = Some Map.empty, window = Some Map.empty,
         setItemThrows = (\<lambda>_. False) \<rparr>" "\<lambda>_. ''{}''" 1 2 3 HARDCODED_RETELL_CREDENTIALS]
  by (simp add: justLoggedOut_def)

text \<open>
  Without the flag the three tiers are written, so the guard is what keeps them unchanged.
\<close>

lemma storeCredentialsEverywhere_writes:
  assumes "\<not> justLoggedOut b" and "localStorage b = Some ls" and "sessionStorage b = Some ss"
    and "window b = Some w" and "\<not> setItemThrows b SessionStorage"
    and "\<not> setItemThrows b LocalStorage"
  shows "storeCredentialsEverywhere JSON_stringify t1 t2 t3 credentials b =
    b\<lparr> localStorage :=
          Some (ls(EMERGENCY_RECOVERY_KEY \<mapsto> JSON_stringify (backupOf credentials t3))),
        sessionStorage :=
          Some (ss(SESSION_BACKUP_KEY \<mapsto> JSON_stringify (backupOf credentials t1))),
        window := Some (w(MEMORY_BACKUP_KEY \<mapsto> backupOf credentials t2)) \<rparr>"
  using assms by (simp add: storeCredentialsEverywhere_def)

section \<open>Properties of the global service initializer\<close>

lemma single_flight_step:
  "single_flight s \<Longrightarrow> e \<noteq> CallForceReinitialize \<Longrightarrow> single_flight (step e s)"
  by (cases e)
     (auto simp: single_flight_def initialize_def performInitialization_def
        body_succeeds_def body_fails_def split: if_splits option.splits)

lemma single_flight_run:
  "single_flight s \<Longrightarrow> CallForceReinitialize \<notin> set es \<Longrightarrow> single_flight (run es s)"
proof (induction es arbitrary: s)
  case Nil
  then show ?case by simp
next
  case (Cons e es)
  then show ?case using single_flight_step [of s e] by auto
qed

lemma single_flight_bodyRuns: "single_flight s \<Longrightarrow> bodyRuns s \<le> 1"
  by (auto simp: single_flight_def bodyRuns_def split: if_splits)

text \<open>
  C8: \<^verbatim>\<open>initialize\<close> is idempotent and single-flight. In every execution made of
  calls of \<^verbatim>\<open>initialize\<close> and of ends of running bodies, in any number and order,
  the initialization body is started at most once; a call made while initialization is
  in flight (not initialized, a promise stored) returns the stored promise and changes
  nothing; a call made after successful completion returns at once and changes nothing.
\<close>

theorem initialize_single_flight:
  "(CallForceReinitialize \<notin> set es \<longrightarrow> bodyRuns (run es gsi_initial) \<le> 1)
   \<and> (\<not> initialized s \<and> initPromise s = Some p \<longrightarrow> initialize s = (ReturnsPromise p, s))
   \<and> (initialized s \<longrightarrow> initialize s = (ReturnsVoid, s))"
proof -
  have "single_flight gsi_initial"
    by (simp add: single_flight_def gsi_initial_def)
  then have "CallForceReinitialize \<notin> set es \<Longrightarrow> bodyRuns (run es gsi_initial) \<le> 1"
    using single_flight_run single_flight_bodyRuns by blast
  then show ?thesis
    by (auto simp: initialize_def)
qed

theorem initialize_single_flight_witness:
  "CallForceReinitialize \<notin> set [CallInitialize, CallInitialize, BodySucceeds 0, CallInitialize]
   \<and> bodyRuns (run [CallInitialize, CallInitialize, BodySucceeds 0, CallInitialize] gsi_initial) = 1
   \<and> initialize \<lparr> initialized = False, initPromise = Some 0, promises = [Pending] \<rparr>
       = (ReturnsPromise 0, \<lparr> initialized = False, initPromise = Some 0, promises = [Pending] \<rparr>)
   \<and> initialize \<lparr> initialized = True, initPromise = Some 0, promises = [Fulfilled] \<rparr>
       = (ReturnsVoid, \<lparr> initialized = True, initPromise = Some 0, promises = [Fulfilled] \<rparr>)"
  using initialize_single_flight
    [of "[CallInitialize, CallInitialize, BodySucceeds 0, CallInitialize]"
        "\<lparr> initialized = False, initPromise = Some 0, promises = [Pending] \<rparr>" 0]
    initialize_single_flight
    [of "[]" "\<lparr> initialized = True, initPromise = Some 0, promises = [Fulfilled] \<rparr>" 0]
  by (simp add: gsi_initial_def initialize_def performInitialization_def body_succeeds_def bodyRuns_def)











section \<open>Properties of the cloud profile table\<close>

lemma update_row_user_id [simp]: "user_id (update_row v r) = user_id r"
  by (simp add: update_row_def)

lemma update_row_idem [simp]: "update_row v (update_row v r) = update_row v r"
  by (simp add: update_row_def)

lemma update_row_insert_row [simp]:
  "update_row v (insert_row d v) = insert_row d v"
  by (simp add: update_row_def insert_row_def)

lemma update_row_other: "user_id r \<noteq> v_user_id v \<Longrightarrow> update_row v r = r"
  by (simp add: update_row_def)

lemma filter_user_distinct:
  "distinct (map user_id table) \<Longrightarrow> u \<in> set (map user_id table)
     \<Longrightarrow> length (filter (\<lambda>r. user_id r = u) table) = 1"
  by (induction table) (auto simp: filter_empty_conv image_iff)

lemma upsert_fixed_idempotent:
  assumes "distinct (map user_id table)"
    and "upsert d OnConflictUserId v table = Inr t1"
  shows "upsert d OnConflictUserId v t1 = Inr t1
    \<and> length (filter (\<lambda>r. user_id r = v_user_id v) t1) = 1
    \<and> distinct (map user_id t1)"
proof (cases "v_user_id v \<in> set (map user_id table)")
  case True
  then have t1: "t1 = map (update_row v) table"
    using assms(2) by (simp add: upsert_def)
  have ids: "map user_id t1 = map user_id table"
    by (simp add: t1 comp_def)
  show ?thesis
    using True assms(1) filter_user_distinct [of t1 "v_user_id v"]
    by (simp add: upsert_def ids) (simp add: t1 comp_def)
next
  case False
  then have t1: "t1 = table @ [insert_row d v]"
    using assms(2) by (simp add: upsert_def)
  have same: "map (update_row v) table = table"
    using False by (induction table) (auto simp: update_row_other)
  have uid: "user_id (insert_row d v) = v_user_id v"
    by (simp add: insert_row_def)
  have none: "filter (\<lambda>r. user_id r = v_user_id v) table = []"
    using False by (auto simp: filter_empty_conv image_iff)
  show ?thesis
    using False assms(1) by (simp add: upsert_def t1 same uid none) 
qed

lemma storeInUserProfiles_fixed_idempotent:
  assumes "distinct (map user_id table)"
    and "storeInUserProfiles_fixed d userId k cfg now table = Inr t1"
  shows "storeInUserProfiles_fixed d userId k cfg now t1 = Inr t1
    \<and> length (filter (\<lambda>r. user_id r = userId) t1) = 1"
  using upsert_fixed_idempotent [OF assms(1),
      of d "\<lparr> v_user_id = userId, v_encrypted_retell_api_key = k,
         v_encrypted_agent_config = cfg, v_updated_at = now \<rparr>" t1] assms(2)
  by (simp add: storeInUserProfiles_fixed_def storeInUserProfiles_upsert_def)

lemma storeInUserProfiles_current_second_fails:
  assumes "storeInUserProfiles_current d userId k cfg now table = Inr t1"
  shows "storeInUserProfiles_current d userId k' cfg' now' t1 = Inl unique_violation"
  using assms
  by (auto simp: storeInUserProfiles_current_def storeInUserProfiles_upsert_def upsert_def
        insert_row_def split: if_splits)

text \<open>
  The query of \<^verbatim>\<open>retrieveFromUserProfiles\<close> reads the rows of the current tenant
  only: the rows of every other tenant can be removed without changing its answer.
\<close>

lemma retrieveFromUserProfiles_query_isolated:
  "retrieveFromUserProfiles_query
     (filter (\<lambda>r. tenant_id r = Some getCurrentTenantId) table) userId
   = retrieveFromUserProfiles_query table userId"
proof -
  have "filter (\<lambda>r. user_id r = userId \<and> tenant_id r = Some getCurrentTenantId)
          (filter (\<lambda>r. tenant_id r = Some getCurrentTenantId) table)
      = filter (\<lambda>r. user_id r = userId \<and> tenant_id r = Some getCurrentTenantId) table"
    by (induction table) auto
  then show ?thesis
    by (simp add: retrieveFromUserProfiles_query_def select_single_def)
qed

text \<open>
  C3: saving the same CredentialSet twice for user U leaves one row and the second save
  does not fail with a uniqueness violation. The \<^verbatim>\<open>upsert\<close> call marked as current has
  no conflict target: on the empty table the first save inserts the row of U, and the
  second save of the same set is refused with the uniqueness violation on
  \<^verbatim>\<open>user_profiles_user_id_key\<close>, whatever the column default of the tenant. (With the
  conflict target of the call marked as fixed the second save returns the same table,
  with one row for U: \<open>storeInUserProfiles_fixed_idempotent\<close>.)
\<close>

theorem storeInUserProfiles_second_save_conflict:
  "storeInUserProfiles_current d ''U'' (Some ''enc_key_abc'')
      \<lparr> call_agent_id = Some ''agent_1'', sms_agent_id = None \<rparr> ''t1'' []
     = Inr [\<lparr> user_id = ''U'', tenant_id = d, encrypted_retell_api_key = Some ''enc_key_abc'',
              encrypted_agent_config = Some \<lparr> call_agent_id = Some ''agent_1'', sms_agent_id = None \<rparr>,
              updated_at = ''t1'' \<rparr>]
   \<and> storeInUserProfiles_current d ''U'' (Some ''enc_key_abc'')
      \<lparr> call_agent_id = Some ''agent_1'', sms_agent_id = None \<rparr> ''t2''
      [\<lparr> user_id = ''U'', tenant_id = d, encrypted_retell_api_key = Some ''enc_key_abc'',
              encrypted_agent_config = Some \<lparr> call_agent_id = Some ''agent_1'', sms_agent_id = None \<rparr>,
              updated_at = ''t1'' \<rparr>]
     = Inl unique_violation"
  by (simp add: storeInUserProfiles_current_def storeInUserProfiles_upsert_def upsert_def
        insert_row_def)

text \<open>
  C1: a save made under one tenant reads and writes no row of another tenant. The
  \<^verbatim>\<open>upsert\<close> of \<^verbatim>\<open>storeInUserProfiles\<close> writes no tenant column and resolves the
  conflict on \<^verbatim>\<open>user_id\<close> alone. The current tenant is not medex; with the table
  holding the row of tenant medex for user U, the save of the call marked as fixed
  overwrites the key and the agent configuration of that row, and the tenant-filtered
  query of the saving tenant then finds no row; the save of the call marked as current
  fails there with the uniqueness violation, whereas on the table without the row of
  medex it succeeds, the new row taking the column default as its tenant.
\<close>

theorem storeInUserProfiles_crosses_tenants:
  "getCurrentTenantId \<noteq> ''medex''
   \<and> storeInUserProfiles_fixed d ''U'' (Some ''enc_A'')
        \<lparr> call_agent_id = Some ''agent_A'', sms_agent_id = None \<rparr> ''t1''
        [\<lparr> user_id = ''U'', tenant_id = Some ''medex'', encrypted_retell_api_key = Some ''enc_B'',
           encrypted_agent_config = Some \<lparr> call_agent_id = Some ''agent_B'', sms_agent_id = None \<rparr>,
           updated_at = ''t0'' \<rparr>]
     = Inr [\<lparr> user_id = ''U'', tenant_id = Some ''medex'', encrypted_retell_api_key = Some ''enc_A'',
           encrypted_agent_config = Some \<lparr> call_agent_id = Some ''agent_A'', sms_agent_id = None \<rparr>,
           updated_at = ''t1'' \<rparr>]
   \<and> response_data (retrieveFromUserProfiles_query
        [\<lparr> user_id = ''U'', tenant_id = Some ''medex'', encrypted_retell_api_key = Some ''enc_A'',
           encrypted_agent_config = Some \<lparr> call_agent_id = Some ''agent_A'', sms_agent_id = None \<rparr>,
           updated_at = ''t1'' \<rparr>] ''U'') = None
   \<and> storeInUserProfiles_current d ''U'' (Some ''enc_A'')
        \<lparr> call_agent_id = Some ''agent_A'', sms_agent_id = None \<rparr> ''t1''
        [\<lparr> user_id = ''U'', tenant_id = Some ''medex'', encrypted_retell_api_key = Some ''enc_B'',
           encrypted_agent_config = Some \<lparr> call_agent_id = Some ''agent_B'', sms_agent_id = None \<rparr>,
           updated_at = ''t0'' \<rparr>]
     = Inl unique_violation
   \<and> storeInUserProfiles_current d ''U'' (Some ''enc_A'')
        \<lparr> call_agent_id = Some ''agent_A'', sms_agent_id = None \<rparr> ''t1'' []
     = Inr [\<lparr> user_id = ''U'', tenant_id = d, encrypted_retell_api_key = Some ''enc_A'',
           encrypted_agent_config = Some \<lparr> call_agent_id = Some ''agent_A'', sms_agent_id = None \<rparr>,
           updated_at = ''t1'' \<rparr>]"
  by (simp add: getCurrentTenantId_def CURRENT_TENANT_def storeInUserProfiles_fixed_def
        storeInUserProfiles_current_def storeInUserProfiles_upsert_def upsert_def update_row_def
        insert_row_def retrieveFromUserProfiles_query_def select_single_def)

section \<open>Properties of the retrieval\<close>

text \<open>
  With the proposed change, a row that yields a decrypted key and no agent identifier is
  completed from the local tier: the result is the key of the row with the agent
  identifiers of the local set that are not empty, and the key alone only when the local
  tier holds nothing.
\<close>

lemma retrieveFromUserProfiles_proposed_backfill:
  assumes "response_error response = None"
    and "response_data response = Some row"
    and "encrypted_retell_api_key row = Some enc" and "enc \<noteq> []"
    and "decryptString enc = Inr key"
    and "noAgentIds (encrypted_agent_config row)"
  shows "retrieveFromUserProfiles_proposed catchFallsBack decryptString localStorageResult response =
    \<lparr> status = success,
      data = Some
        (case (status localStorageResult, data localStorageResult) of
           (success, Some local) \<Rightarrow>
             \<lparr> call_agent_id = (if truthy (call_agent_id local) then call_agent_id local else None),
               sms_agent_id = (if truthy (sms_agent_id local) then sms_agent_id local else None),
               retell_api_key = Some key \<rparr>
         | _ \<Rightarrow> \<lparr> call_agent_id = None, sms_agent_id = None, retell_api_key = Some key \<rparr>),
      error_message = None \<rparr>"
  using assms
  by (cases "encrypted_agent_config row"; cases "status localStorageResult";
      cases "data localStorageResult")
     (simp_all add: retrieveFromUserProfiles_proposed_def decryptedApiKeys_def noAgentIds_def
        emptyApiKeys_def emptyAgentConfig_def agentConfigOf_def setIfTruthy_def)

text \<open>
  The function as it runs returns, for such a row, the key alone as a success, whatever
  the local tier holds.
\<close>

lemma retrieveFromUserProfiles_key_alone:
  assumes "response_error response = None"
    and "response_data response = Some row"
    and "encrypted_retell_api_key row = Some enc" and "enc \<noteq> []"
    and "decryptString enc = Inr key"
    and "noAgentIds (encrypted_agent_config row)"
  shows "retrieveFromUserProfiles decryptString response =
    \<lparr> status = success,
      data = Some \<lparr> call_agent_id = None, sms_agent_id = None, retell_api_key = Some key \<rparr>,
      error_message = None \<rparr>"
  using assms
  by (cases "encrypted_agent_config row")
     (simp_all add: retrieveFromUserProfiles_def decryptedApiKeys_def noAgentIds_def
        emptyApiKeys_def emptyAgentConfig_def agentConfigOf_def withAgentIds_def setIfTruthy_def)

text \<open>
  C2: when the row of the profile table yields a decrypted API key and its agent
  configuration holds neither agent identifier, the load recovers the agent identifiers
  from a lower tier, so that the row with the key \<^verbatim>\<open>key_x\<close> and the local tier with
  the call agent \<^verbatim>\<open>agent_y\<close> give \<^verbatim>\<open>key_x\<close> with \<^verbatim>\<open>agent_y\<close>. The function as
  it runs does not: for the row whose key decrypts to \<^verbatim>\<open>key_x\<close> and whose agent
  configuration is the empty object, it returns the success with \<^verbatim>\<open>key_x\<close> and no
  agent identifier; the local tier is no input of it. (The proposed change returns
  \<^verbatim>\<open>key_x\<close> with \<^verbatim>\<open>agent_y\<close>: \<open>retrieveFromUserProfiles_proposed_backfill\<close>.)
\<close>

theorem retrieveFromUserProfiles_returns_key_without_agents:
  "retrieveFromUserProfiles (\<lambda>c. if c = ''cbc:1f'' then Inr ''key_x'' else Inl ''bad'')
     \<lparr> response_data = Some
         \<lparr> user_id = ''u1'', tenant_id = Some ''artlee'',
           encrypted_retell_api_key = Some ''cbc:1f'',
           encrypted_agent_config = Some \<lparr> call_agent_id = None, sms_agent_id = None \<rparr>,
           updated_at = ''2025-10-28'' \<rparr>,
       response_error = None \<rparr>
   = \<lparr> status = success,
       data = Some \<lparr> call_agent_id = None, sms_agent_id = None,
                     retell_api_key = Some ''key_x'' \<rparr>,
       error_message = None \<rparr>"
  by (simp add: retrieveFromUserProfiles_def decryptedApiKeys_def emptyApiKeys_def
        agentConfigOf_def withAgentIds_def setIfTruthy_def)

section \<open>Properties of the load of the settings page\<close>

lemma shouldLoadFromSupabase_test_key:
  "presentWithPrefix (retellApiKey settings) ''test_key_'' \<Longrightarrow> shouldLoadFromSupabase settings"
  by (cases "retellApiKey settings")
     (auto simp: shouldLoadFromSupabase_def isTestCredentials_def orEmpty_def)

lemma local_cache_never_test_key:
  "\<not> shouldLoadFromSupabase settings
     \<Longrightarrow> \<not> presentWithPrefix (retellApiKey settings) ''test_key_''"
  using shouldLoadFromSupabase_test_key by blast

lemma loadFromSupabase_never_test_key:
  "\<not> presentWithPrefix (loaded_apiKey (loadFromSupabase cloud)) ''test_key_''"
  by (cases cloud)
     (auto simp: loadFromSupabase_def isTestData_def HARDCODED_RETELL_CREDENTIALS_def)

lemma noRealData_shouldLoad: "noRealData settings cloud \<Longrightarrow> shouldLoadFromSupabase settings"
  by (auto simp: noRealData_def shouldLoadFromSupabase_def)

text \<open>
  C5: a CredentialSet whose API key carries the reserved prefix \<^verbatim>\<open>test_key_\<close> is
  never the final result of the load. A set of the local cache with such a key is not
  used: the load goes on to the cloud, and returns the set the cloud yields when that is
  not test data; the set that the load returns has no such key, whichever tier it comes
  from. When no tier holds real data, the load returns the hardcoded default
  CredentialSet.
\<close>

theorem loadApiKeys_rejects_test_data:
  "(presentWithPrefix (retellApiKey settings) ''test_key_''
      \<longrightarrow> loadApiKeys settings cloud \<noteq> FromLocalStorage settings)
   \<and> (presentWithPrefix (retellApiKey settings) ''test_key_'' \<and> \<not> isTestData keys
      \<longrightarrow> loadApiKeys settings (Some keys) = FromSupabase keys)
   \<and> \<not> presentWithPrefix (loaded_apiKey (loadApiKeys settings cloud)) ''test_key_''
   \<and> (noRealData settings cloud
      \<longrightarrow> loadApiKeys settings cloud = FromDefault HARDCODED_RETELL_CREDENTIALS)"
proof (intro conjI impI)
  assume k: "presentWithPrefix (retellApiKey settings) ''test_key_''"
  then show "loadApiKeys settings cloud \<noteq> FromLocalStorage settings"
    using shouldLoadFromSupabase_test_key [of settings]
    by (cases cloud) (auto simp: loadApiKeys_def loadFromSupabase_def)
next
  assume "presentWithPrefix (retellApiKey settings) ''test_key_'' \<and> \<not> isTestData keys"
  then show "loadApiKeys settings (Some keys) = FromSupabase keys"
    using shouldLoadFromSupabase_test_key [of settings]
    by (simp add: loadApiKeys_def loadFromSupabase_def)
next
  show "\<not> presentWithPrefix (loaded_apiKey (loadApiKeys settings cloud)) ''test_key_''"
    using local_cache_never_test_key [of settings] loadFromSupabase_never_test_key [of cloud]
    by (simp add: loadApiKeys_def)
next
  assume n: "noRealData settings cloud"
  then have "shouldLoadFromSupabase settings" by (rule noRealData_shouldLoad)
  then show "loadApiKeys settings cloud = FromDefault HARDCODED_RETELL_CREDENTIALS"
    using n by (cases cloud) (simp_all add: loadApiKeys_def loadFromSupabase_def noRealData_def)
qed

theorem loadApiKeys_rejects_test_data_witness:
  "presentWithPrefix (retellApiKey
      \<lparr> retellApiKey = Some ''test_key_123'', settings_callAgentId = None,
        settings_smsAgentId = None \<rparr>) ''test_key_''
   \<and> loadApiKeys
      \<lparr> retellApiKey = Some ''test_key_123'', settings_callAgentId = None,
        settings_smsAgentId = None \<rparr>
      (Some \<lparr> call_agent_id = Some ''agent_1'', sms_agent_id = None, retell_api_key = Some ''key_abc'' \<rparr>)
     = FromSupabase \<lparr> call_agent_id = Some ''agent_1'', sms_agent_id = None, retell_api_key = Some ''key_abc'' \<rparr>
   \<and> noRealData
      \<lparr> retellApiKey = Some ''test_key_123'', settings_callAgentId = None,
        settings_smsAgentId = None \<rparr>
      (Some \<lparr> call_agent_id = None, sms_agent_id = None, retell_api_key = Some ''test_key_9'' \<rparr>)
   \<and> loadApiKeys
      \<lparr> retellApiKey = Some ''test_key_123'', settings_callAgentId = None,
        settings_smsAgentId = None \<rparr>
      (Some \<lparr> call_agent_id = None, sms_agent_id = None, retell_api_key = Some ''test_key_9'' \<rparr>)
     = FromDefault HARDCODED_RETELL_CREDENTIALS"
  using loadApiKeys_rejects_test_data
    [of "\<lparr> retellApiKey = Some ''test_key_123'', settings_callAgentId = None,
        settings_smsAgentId = None \<rparr>"
        "Some \<lparr> call_agent_id = None, sms_agent_id = None, retell_api_key = Some ''test_key_9'' \<rparr>"
        "\<lparr> call_agent_id = Some ''agent_1'', sms_agent_id = None, retell_api_key = Some ''key_abc'' \<rparr>"]
  by (simp add: noRealData_def isTestData_def isTestCredentials_def orEmpty_def)

section \<open>Properties of the save path\<close>

text \<open>A rejected call (no user id, or the logout flag) writes no tier and does not succeed.\<close>

lemma save_rejected_no_writes:
  "scope_userId scope = None \<or> loggedOut
     \<Longrightarrow> snd (save tier_write loggedOut scope credentials stores) = stores
       \<and> \<not> overall_success (fst (save tier_write loggedOut scope credentials stores))"
  by (simp add: save_def overall_success_def)



end
